theory Spec2Isabelle
  imports Complex_Main "HOL-Library.Word"
begin

section \<open>Numbers of the audio front-end\<close>

text \<open>
  The samples and rates of \<^verbatim>\<open>javascript.js\<close> are JavaScript numbers. A finite number
  is modelled by the rational it denotes; the three special values are kept apart, since
  \<^verbatim>\<open>accum / count\<close> produces them when \<^verbatim>\<open>count\<close> is 0. Rounding of the binary
  floating-point operations (and of the store into a \<^verbatim>\<open>Float32Array\<close>) is not modelled:
  arithmetic on finite numbers is exact.
\<close>

datatype jsnum = is_Num: Num rat | PosInf | NegInf | NaN

datatype js_error = RangeError | TypeError | URIError | InvalidStateError

text \<open>\<^verbatim>\<open>a + b\<close> on numbers.\<close>

fun js_add :: "jsnum \<Rightarrow> jsnum \<Rightarrow> jsnum" where
  "js_add NaN _ = NaN"
| "js_add _ NaN = NaN"
| "js_add (Num a) (Num b) = Num (a + b)"
| "js_add PosInf NegInf = NaN"
| "js_add NegInf PosInf = NaN"
| "js_add PosInf _ = PosInf"
| "js_add _ PosInf = PosInf"
| "js_add NegInf _ = NegInf"
| "js_add _ NegInf = NegInf"

text \<open>\<^verbatim>\<open>accum / count\<close> where \<^verbatim>\<open>count\<close> is a non-negative integer counter.\<close>

fun js_div_count :: "jsnum \<Rightarrow> nat \<Rightarrow> jsnum" where
  "js_div_count NaN _ = NaN"
| "js_div_count PosInf _ = PosInf"
| "js_div_count NegInf _ = NegInf"
| "js_div_count (Num a) n =
     (if n = 0 then (if a = 0 then NaN else if 0 < a then PosInf else NegInf)
      else Num (a / of_nat n))"

text \<open>\<^verbatim>\<open>Math.round\<close> on a finite number: the nearest integer, ties towards plus infinity.\<close>

definition js_round :: "rat \<Rightarrow> int" where
  "js_round x = \<lfloor>x + 1 / 2\<rfloor>"

text \<open>Truncation towards zero, the first step of the conversion to a 16-bit integer.\<close>

definition js_trunc :: "rat \<Rightarrow> int" where
  "js_trunc x = (if 0 \<le> x then \<lfloor>x\<rfloor> else \<lceil>x\<rceil>)"

text \<open>\<^verbatim>\<open>Math.min(1, x)\<close> and \<^verbatim>\<open>Math.max(-1, x)\<close>.\<close>

fun js_min1 :: "jsnum \<Rightarrow> jsnum" where
  "js_min1 NaN = NaN"
| "js_min1 PosInf = Num 1"
| "js_min1 NegInf = NegInf"
| "js_min1 (Num a) = Num (min 1 a)"

fun js_max_neg1 :: "jsnum \<Rightarrow> jsnum" where
  "js_max_neg1 NaN = NaN"
| "js_max_neg1 PosInf = PosInf"
| "js_max_neg1 NegInf = Num (- 1)"
| "js_max_neg1 (Num a) = Num (max (- 1) a)"

text \<open>\<^verbatim>\<open>s < 0\<close> and \<^verbatim>\<open>s * k\<close> for a positive integer constant \<^verbatim>\<open>k\<close>.\<close>

fun js_negative :: "jsnum \<Rightarrow> bool" where
  "js_negative (Num a) = (a < 0)"
| "js_negative NegInf = True"
| "js_negative _ = False"

fun js_scale :: "jsnum \<Rightarrow> rat \<Rightarrow> jsnum" where
  "js_scale (Num a) k = Num (a * k)"
| "js_scale x _ = x"

section \<open>PCM encoding\<close>

text \<open>
  \<^verbatim>\<open>DataView.setInt16\<close> converts its argument with ToInt16: NaN and the infinities
  become 0, a finite number is truncated and reduced modulo \<open>2 ^ 16\<close>. A \<open>16 word\<close>
  holds the stored bits.
\<close>

fun to_int16 :: "jsnum \<Rightarrow> 16 word" where
  "to_int16 (Num a) = word_of_int (js_trunc a)"
| "to_int16 _ = 0"

text \<open>The value handed to \<^verbatim>\<open>setInt16\<close> for one sample: lines 727 and 728.\<close>

definition pcm_clamp :: "jsnum \<Rightarrow> jsnum" where
  "pcm_clamp x = js_max_neg1 (js_min1 x)"

definition pcm_scaled :: "jsnum \<Rightarrow> jsnum" where
  "pcm_scaled x =
     (let s = pcm_clamp x in if js_negative s then js_scale s 32768 else js_scale s 32767)"

definition pcm_sample :: "jsnum \<Rightarrow> 16 word" where
  "pcm_sample x = to_int16 (pcm_scaled x)"

text \<open>\<^verbatim>\<open>setInt16(offset, v, true)\<close>: the low byte first.\<close>

definition int16_le :: "16 word \<Rightarrow> 8 word list" where
  "int16_le w = [ucast w, ucast (drop_bit 8 w)]"

text \<open>The loop of \<^verbatim>\<open>pcmEncode\<close> writes two bytes per sample, in order.\<close>

fun pcmEncode :: "jsnum list \<Rightarrow> 8 word list" where
  "pcmEncode [] = []"
| "pcmEncode (x # xs) = int16_le (pcm_sample x) @ pcmEncode xs"

section \<open>Downsampling\<close>

text \<open>
  A read of \<^verbatim>\<open>buffer[i]\<close> outside the array gives \<^verbatim>\<open>undefined\<close>, and adding
  \<^verbatim>\<open>undefined\<close> to a number gives NaN.
\<close>

definition buffer_at :: "jsnum list \<Rightarrow> int \<Rightarrow> jsnum" where
  "buffer_at buffer i = (if 0 \<le> i \<and> i < int (length buffer) then buffer ! nat i else NaN)"

text \<open>
  The inner \<^verbatim>\<open>for\<close> loop (lines 761 to 764): from \<^verbatim>\<open>i\<close> while
  \<^verbatim>\<open>i < nextOffsetBuffer && i < buffer.length\<close>, carrying \<^verbatim>\<open>accum\<close> and \<^verbatim>\<open>count\<close>.
\<close>

function accumulate :: "jsnum list \<Rightarrow> int \<Rightarrow> int \<Rightarrow> jsnum \<Rightarrow> nat \<Rightarrow> jsnum \<times> nat" where
  "accumulate buffer nextOffsetBuffer i accum count =
     (if i < nextOffsetBuffer \<and> i < int (length buffer)
      then accumulate buffer nextOffsetBuffer (i + 1) (js_add accum (buffer_at buffer i)) (Suc count)
      else (accum, count))"
  by pat_completeness auto
termination
  by (relation "measure (\<lambda>(buffer, n, i, a, c). nat (int (length buffer) - i))") auto

text \<open>
  The outer \<^verbatim>\<open>while\<close> loop (lines 755 to 769). \<^verbatim>\<open>result\<close> is the
  \<^verbatim>\<open>Float32Array\<close> being filled, \<^verbatim>\<open>offsetResult\<close> and \<^verbatim>\<open>offsetBuffer\<close> the two
  cursors.
\<close>

function downsample_loop ::
  "jsnum list \<Rightarrow> rat \<Rightarrow> jsnum list \<Rightarrow> nat \<Rightarrow> int \<Rightarrow> jsnum list" where
  "downsample_loop buffer sampleRateRatio result offsetResult offsetBuffer =
     (if offsetResult < length result
      then let nextOffsetBuffer = js_round ((of_nat offsetResult + 1) * sampleRateRatio);
               (accum, count) = accumulate buffer nextOffsetBuffer offsetBuffer (Num 0) 0
           in downsample_loop buffer sampleRateRatio
                (result[offsetResult := js_div_count accum count]) (Suc offsetResult)
                nextOffsetBuffer
      else result)"
  by pat_completeness auto
termination
  by (relation "measure (\<lambda>(buffer, r, result, k, i). length result - k)") auto

text \<open>A parameter with a default value: \<^verbatim>\<open>undefined\<close> takes the default.\<close>

definition default_to :: "'a \<Rightarrow> 'a option \<Rightarrow> 'a" where
  "default_to d x = (case x of None \<Rightarrow> d | Some v \<Rightarrow> v)"

text \<open>
  \<^verbatim>\<open>downsampleBuffer\<close> with its default parameters (an \<^verbatim>\<open>undefined\<close> argument takes
  the default). Outside positive rates the code still runs, and the branches say what it
  does: with \<^verbatim>\<open>outputSampleRate\<close> 0 the ratio is infinite and the length rounds to 0;
  with \<^verbatim>\<open>inputSampleRate\<close> 0 the length is NaN (an empty array) for an empty buffer and
  infinite (\<^verbatim>\<open>new Float32Array\<close> throws RangeError) otherwise; a negative length throws
  RangeError too.
\<close>

definition downsampleBuffer ::
  "jsnum list \<Rightarrow> rat option \<Rightarrow> rat option \<Rightarrow> js_error + jsnum list" where
  "downsampleBuffer buffer inputSampleRate outputSampleRate =
     (let inputSampleRate = default_to 44100 inputSampleRate;
          outputSampleRate = default_to 16000 outputSampleRate
      in if outputSampleRate = inputSampleRate then Inr buffer
         else if outputSampleRate = 0 then Inr []
         else if inputSampleRate = 0 then (if buffer = [] then Inr [] else Inl RangeError)
         else let sampleRateRatio = inputSampleRate / outputSampleRate;
                  newLength = js_round (of_nat (length buffer) / sampleRateRatio)
              in if newLength < 0 then Inl RangeError
                 else Inr (downsample_loop buffer sampleRateRatio
                             (replicate (nat newLength) (Num 0)) 0 0))"

section \<open>Session state\<close>

text \<open>
  The module-level variables of \<^verbatim>\<open>javascript.js\<close> (lines 14 to 36) and the parts of the
  page they read back, as one record threaded through every handler. A WebSocket object is
  its \<^verbatim>\<open>readyState\<close>; a variable still \<^verbatim>\<open>undefined\<close> is \<open>None\<close>.
\<close>

datatype ready_state = CONNECTING | OPEN | CLOSING | CLOSED

text \<open>
  An item of \<^verbatim>\<open>websocketQueue\<close>: the fields \<^verbatim>\<open>action\<close>, \<^verbatim>\<open>value\<close> and
  \<^verbatim>\<open>type\<close> of the decoded message; \<open>None\<close> is a field that is absent (or not a string).
\<close>

record queue_item =
  action :: "string option"
  item_value :: "string option"
  item_type :: "string option"

text \<open>A message for the control channel (\<^verbatim>\<open>websocketApplicationQueue\<close>).\<close>

datatype app_message =
    StartProcess string
  | StopProcess
  | SendUtterance string
  | Ping

text \<open>What \<^verbatim>\<open>websocketTranscribe.send\<close> is given: a marshalled frame, or \<^verbatim>\<open>undefined\<close>.\<close>

datatype ws_data = Binary "8 word list" | Undefined

text \<open>
  The calls that leave the program, in the order they are made: audio playback, the message
  list, the error dialogue, both sockets, the microphone, and assignments to properties of
  page elements that the program never reads back. Console logging is left out.
\<close>

datatype effect =
    AudioPlay "string option" string
  | AudioResume
  | DisplayText "string option" string "string option"
  | ShowErrorMessage string string
  | ApplicationSend app_message
  | FetchApplicationUrl
  | TranscribeSend ws_data
  | NewTranscribeSocket "string option"
  | GetUserMedia
  | MicStart
  | MicStop
  | ClearMessages
  | SetProperty string string string

text \<open>
  Ghost state: each \<^verbatim>\<open>websocketQueue.shift()\<close> and each call of
  \<^verbatim>\<open>queueProcessorCompletedAction\<close>, in order. No function reads it.
\<close>

datatype seq_event = is_Dequeued: Dequeued queue_item | Completed

record session =
  websocketApplicationQueue :: "app_message list"
  websocketQueue :: "queue_item list"
  websocketApplication :: "ready_state option"
  websocketTranscribe :: "ready_state option"
  websocketTranscribeUrl :: "string option"
  isQueueProcessing :: bool
  isSpeaking :: bool
  isListening :: bool
  micSampleRate :: "rat option"
  transcription :: string
  utteranceLastEvent :: "nat option"
  utterance :: string
  allowAudioInput :: bool
  allowAudioInputOnly :: bool
  inputText_value :: string
  sendButton_disabled :: bool
  statusDiv :: "string \<times> string \<times> string"
  splash :: bool
  effects :: "effect list"
  history :: "seq_event list"

text \<open>
  A handler either returns or throws; the variables keep what was assigned before the throw.
\<close>

datatype 'a outcome = Returned 'a | Thrown js_error 'a

fun state_of :: "'a outcome \<Rightarrow> 'a" where
  "state_of (Returned s) = s"
| "state_of (Thrown e s) = s"

definition transcribeSampleRate :: rat where
  "transcribeSampleRate = 16000"

text \<open>
  The state when the script has loaded, in a browser with media support (lines 14 to 36 and
  65 to 69). The markup of the page is not among the sources: \<open>splash\<close> says whether an
  element with that id exists, and no function of the model changes it.
\<close>

definition init_session :: session where
  "init_session =
     \<lparr> websocketApplicationQueue = [], websocketQueue = [], websocketApplication = None,
       websocketTranscribe = None, websocketTranscribeUrl = None,
       isQueueProcessing = False, isSpeaking = False, isListening = False,
       micSampleRate = None, transcription = [], utteranceLastEvent = None, utterance = [],
       allowAudioInput = True, allowAudioInputOnly = True,
       inputText_value = [], sendButton_disabled = True,
       statusDiv = (''Stopped'', ''success'', ''slash-square''), splash = True,
       effects = [], history = [] \<rparr>"

definition emit :: "effect \<Rightarrow> session \<Rightarrow> session" where
  "emit e s = s\<lparr>effects := effects s @ [e]\<rparr>"

definition updateStatus :: "string \<Rightarrow> string \<Rightarrow> string \<Rightarrow> session \<Rightarrow> session" where
  "updateStatus status type icon s = s\<lparr>statusDiv := (status, type, icon)\<rparr>"

definition audioPlay :: "string option \<Rightarrow> string \<Rightarrow> session \<Rightarrow> session" where
  "audioPlay url type s = emit (AudioPlay url type) s"



text \<open>
  \<^verbatim>\<open>displayText(text, type, url)\<close> changes the message list only. Every path through it
  evaluates \<^verbatim>\<open>type.toLowerCase()\<close> before it touches the page, so an \<^verbatim>\<open>undefined\<close>
  type throws TypeError with nothing displayed.
\<close>

definition displayText ::
  "string option \<Rightarrow> string option \<Rightarrow> string option \<Rightarrow> session \<Rightarrow> session outcome" where
  "displayText text type url s =
     (case type of
        None \<Rightarrow> Thrown TypeError s
      | Some t \<Rightarrow> Returned (emit (DisplayText text t url) s))"

section \<open>Control channel\<close>

text \<open>The \<^verbatim>\<open>while\<close> loop of \<^verbatim>\<open>websocketApplicationQueueProcessor\<close> (lines 269 to 272).\<close>

function send_queued :: "session \<Rightarrow> session" where
  "send_queued s =
     (if 0 < length (websocketApplicationQueue s)
      then let message = hd (websocketApplicationQueue s);
               s = s\<lparr>websocketApplicationQueue := tl (websocketApplicationQueue s)\<rparr>
           in send_queued (emit (ApplicationSend message) s)
      else s)"
  by pat_completeness auto
termination
  by (relation "measure (\<lambda>s. length (websocketApplicationQueue s))") (auto simp: emit_def)

definition websocketApplicationQueueProcessor :: "app_message option \<Rightarrow> session \<Rightarrow> session" where
  "websocketApplicationQueueProcessor data s =
     (let s = (case data of
                 None \<Rightarrow> s
               | Some d \<Rightarrow> s\<lparr>websocketApplicationQueue := websocketApplicationQueue s @ [d]\<rparr>)
      in if websocketApplicationQueue s \<noteq> [] \<and> websocketApplication s = Some OPEN
         then send_queued s
         else s)"

text \<open>
  \<^verbatim>\<open>websocketApplicationConnect\<close> up to the \<^verbatim>\<open>fetch\<close>; what follows runs in a later
  callback.
\<close>

definition websocketApplicationConnect :: "session \<Rightarrow> session" where
  "websocketApplicationConnect s = emit FetchApplicationUrl (websocketApplicationQueueProcessor None s)"



text \<open>
  \<^verbatim>\<open>sendUtterance\<close>: its assignment \<^verbatim>\<open>utterance = ''\<close> is to the parameter of that name,
  so only \<^verbatim>\<open>transcription\<close> is cleared.
\<close>

definition sendUtterance :: "string \<Rightarrow> session \<Rightarrow> session" where
  "sendUtterance text s =
     (let s = updateStatus ''Processing'' ''success'' ''arrow-down-up'' s;
          s = websocketApplicationQueueProcessor (Some (SendUtterance text)) s
      in s\<lparr>transcription := []\<rparr>)"

section \<open>Playback sequencer\<close>

text \<open>
  What one branch of the dispatch in \<^verbatim>\<open>queueProcessor\<close> (lines 202 to 249) does with the
  dequeued item: a playback branch starts the audio and leaves the completion to the
  \<^verbatim>\<open>ended\<close> event; every other branch ends in \<^verbatim>\<open>queueProcessorCompletedAction()\<close>,
  unless \<^verbatim>\<open>displayText\<close> throws first.
\<close>

datatype branch = Playback session | Immediate session | Raised js_error session

definition startStreamAudio :: "session \<Rightarrow> session" where
  "startStreamAudio s = emit GetUserMedia s"

definition then_complete :: "session outcome \<Rightarrow> branch" where
  "then_complete r = (case r of Returned s \<Rightarrow> Immediate s | Thrown e s \<Rightarrow> Raised e s)"

definition dispatch :: "queue_item \<Rightarrow> session \<Rightarrow> branch" where
  "dispatch queueItem s =
     (if action queueItem = Some ''PLAY_RESPONSE''
        then Playback (audioPlay (item_value queueItem) ''RESPONSE'' s)
      else if action queueItem = Some ''PLAY_FEEDBACK''
        then Playback (audioPlay (item_value queueItem) ''FEEDBACK'' s)
      else if action queueItem = Some ''PLAY_RINGTONE''
        then Playback (audioPlay (item_value queueItem) ''RINGTONE''
               (emit (SetProperty ''inputText'' ''disabled'' ''false'')
                 (emit (SetProperty ''speakButton'' ''disabled'' ''false'') s)))
      else if action queueItem = Some ''DISPLAY_RESPONSE'' \<and> item_type queueItem = Some ''IMAGE''
        then then_complete (displayText None (Some ''RESPONSE'') (item_value queueItem) s)
      else if action queueItem = Some ''DISPLAY_RESPONSE''
        then then_complete (displayText (item_value queueItem) (Some ''RESPONSE'') None s)
      else if action queueItem = Some ''DISPLAY_FEEDBACK''
        then then_complete (displayText (item_value queueItem) (Some ''FEEDBACK'') None s)
      else if action queueItem = Some ''REASONING''
        then Immediate s
      else if action queueItem = Some ''TRANSCRIBE_CONNECTION''
        then let s = s\<lparr>websocketTranscribeUrl := item_value queueItem\<rparr>
             in Immediate (if allowAudioInput s then startStreamAudio s else s)
      else if action queueItem = Some ''FEEDBACK_END''
        then let s = (if allowAudioInput s
                      then emit (SetProperty ''speakButton'' ''disabled'' ''false'')
                             (emit (SetProperty ''stopProcessButton'' ''style.display'' ''none'')
                               (emit (SetProperty ''startProcessButton'' ''style.display'' ''inline'') s))
                      else s)
             in Immediate (emit (SetProperty ''inputText'' ''disabled'' ''false'') s)
      else if action queueItem = Some ''WAIT''
        then then_complete
               (displayText (item_value queueItem) (item_type queueItem) None
                 (updateStatus ''Processing'' ''success'' ''arrow-down-up'' s))
      else if action queueItem = Some ''ERROR''
        then then_complete
               (displayText (item_value queueItem) (item_type queueItem) None
                 (updateStatus ''Processing'' ''success'' ''exclamation-square'' s))
      else Immediate s)"

text \<open>The last statement of \<^verbatim>\<open>queueProcessor\<close> (lines 251 to 253), skipped by a throw.\<close>

definition ready_when_empty :: "session outcome \<Rightarrow> session outcome" where
  "ready_when_empty r =
     (case r of
        Returned s \<Rightarrow>
          Returned (if length (websocketQueue s) = 0
                    then updateStatus ''Ready'' ''success'' ''check-square'' s else s)
      | Thrown e s \<Rightarrow> Thrown e s)"

function queueProcessor :: "queue_item option \<Rightarrow> session \<Rightarrow> session outcome"
  and queueProcessorCompletedAction :: "session \<Rightarrow> session outcome" where
  "queueProcessor data s =
     (let s = (case data of
                 None \<Rightarrow> s
               | Some d \<Rightarrow> s\<lparr>websocketQueue := websocketQueue s @ [d]\<rparr>)
      in ready_when_empty
           (if websocketQueue s \<noteq> [] \<and> \<not> isQueueProcessing s
            then let queueItem = hd (websocketQueue s);
                     s = s\<lparr>isQueueProcessing := True,
                           websocketQueue := tl (websocketQueue s),
                           history := history s @ [Dequeued queueItem]\<rparr>
                 in (case dispatch queueItem s of
                       Playback s \<Rightarrow> Returned s
                     | Immediate s \<Rightarrow> queueProcessorCompletedAction s
                     | Raised e s \<Rightarrow> Thrown e s)
            else Returned s))"
| "queueProcessorCompletedAction s =
     queueProcessor None (s\<lparr>isQueueProcessing := False, history := history s @ [Completed]\<rparr>)"
  by pat_completeness auto
termination
proof (relation "measure (\<lambda>x. case x of
          Inl (data, s) \<Rightarrow> 2 * (length (websocketQueue s) + (if data = None then 0 else 1)) + 1
        | Inr s \<Rightarrow> 2 * length (websocketQueue s) + 2)", goal_cases)
  case 1
  show ?case by simp
next
  case (2 data s s1 queueItem s2 s3)
  have "websocketQueue s3 = websocketQueue s2"
    using 2(5)
    by (auto simp: dispatch_def then_complete_def displayText_def audioPlay_def emit_def
          updateStatus_def startStreamAudio_def Let_def split: if_splits option.splits)
  moreover have "Suc (length (websocketQueue s2)) = length (websocketQueue s1)"
    using 2(2,4) by (cases "websocketQueue s1") simp_all
  moreover have "length (websocketQueue s1)
      = length (websocketQueue s) + (if data = None then 0 else 1)"
    using 2(1) by (simp split: option.splits)
  ultimately show ?case by simp
next
  case (3 s)
  show ?case by simp
qed





section \<open>Send button\<close>

text \<open>
  The \<^verbatim>\<open>click\<close> listener of the send button (lines 616 to 649), and
  \<^verbatim>\<open>sendButton.click()\<close>, which dispatches the event unless the button is disabled.
\<close>

definition sendButton_onclick :: "session \<Rightarrow> session outcome" where
  "sendButton_onclick s =
     (if 0 < length (inputText_value s)
      then let s = s\<lparr>websocketQueue := [], websocketApplicationQueue := []\<rparr>;
               s = emit AudioResume s;
               s = (if websocketApplication s = None then websocketApplicationConnect s else s);
               s = s\<lparr>isListening := False\<rparr>;
               s = (if splash s then emit ClearMessages s else s);
               s = (if allowAudioInput s
                    then emit (SetProperty ''speakButton'' ''disabled'' ''false'')
                           (emit (SetProperty ''stopProcessButton'' ''disabled'' ''false'')
                             (emit (SetProperty ''stopProcessButton'' ''style.display'' ''inline'')
                               (emit (SetProperty ''startProcessButton'' ''style.display'' ''none'') s)))
                    else s);
               s = emit (SetProperty ''inputText'' ''disabled'' ''false'') s;
               s = sendUtterance (inputText_value s) s
           in (case displayText (Some (inputText_value s)) (Some ''UTTERANCE'') None s of
                 Thrown e s \<Rightarrow> Thrown e s
               | Returned s \<Rightarrow>
                   (case displayText (Some ''BUILDING_RESPONSE'') (Some ''WAIT'') None s of
                      Thrown e s \<Rightarrow> Thrown e s
                    | Returned s \<Rightarrow>
                        Returned (s\<lparr>inputText_value := [], sendButton_disabled := True\<rparr>)))
      else Returned s)"

definition sendButton_click :: "session \<Rightarrow> session outcome" where
  "sendButton_click s = (if sendButton_disabled s then Returned s else sendButton_onclick s)"

section \<open>Utterance assembly\<close>

text \<open>
  Strings are lists of 8-bit characters: the body of a transcript event is decoded with
  \<^verbatim>\<open>String.fromCharCode\<close> byte by byte (line 460), so every code unit of a transcript is
  below 256. \<^verbatim>\<open>\W\<close> is any character outside \<^verbatim>\<open>[A-Za-z0-9_]\<close>; \<^verbatim>\<open>trim\<close> strips
  white space and line terminators, of which tab, line feed, vertical tab, form feed,
  carriage return, space and no-break space lie below 256.
\<close>

definition is_word_char :: "char \<Rightarrow> bool" where
  "is_word_char c =
     (let n = (of_char c :: nat)
      in (48 \<le> n \<and> n \<le> 57) \<or> (65 \<le> n \<and> n \<le> 90) \<or> n = 95 \<or> (97 \<le> n \<and> n \<le> 122))"

definition is_trim_char :: "char \<Rightarrow> bool" where
  "is_trim_char c = ((of_char c :: nat) \<in> {9, 10, 11, 12, 13, 32, 160})"

definition js_trim :: "string \<Rightarrow> string" where
  "js_trim s = rev (dropWhile is_trim_char (rev (dropWhile is_trim_char s)))"

text \<open>
  \<^verbatim>\<open>s.split(/\W+/)\<close>: the pieces between the maximal runs of non-word characters, the
  empty pieces before a leading run and after a trailing run included; the empty string
  gives one empty piece.
\<close>

function js_split_nonword :: "string \<Rightarrow> string list" where
  "js_split_nonword s =
     (let piece = takeWhile is_word_char s;
          rest = dropWhile is_word_char s
      in if rest = [] then [piece]
         else piece # js_split_nonword (dropWhile (\<lambda>c. \<not> is_word_char c) rest))"
  by pat_completeness auto
termination
proof (relation "measure length", goal_cases)
  case 1
  show ?case by simp
next
  case (2 s piece rest)
  have "length (dropWhile (\<lambda>c. \<not> is_word_char c) rest) < length rest"
  proof (cases rest)
    case Nil
    with 2 show ?thesis by simp
  next
    case (Cons c cs)
    with 2(2) have "\<not> is_word_char c"
      by (metis hd_dropWhile list.sel(1) list.distinct(1))
    with Cons show ?thesis
      by (simp add: le_imp_less_Suc length_dropWhile_le)
  qed
  moreover have "length rest \<le> length s"
    using 2(2) by (simp add: length_dropWhile_le)
  ultimately show ?case by simp
qed

text \<open>
  The built-in functions \<^verbatim>\<open>decodeURIComponent\<close> and \<^verbatim>\<open>escape\<close> are parameters of the
  model; \<open>None\<close> is a thrown URIError.
\<close>

record builtins =
  decodeURIComponent :: "string \<Rightarrow> string option"
  escape :: "string \<Rightarrow> string"

text \<open>
  One result of a transcript event: the \<^verbatim>\<open>Transcript\<close> of each of its
  \<^verbatim>\<open>Alternatives\<close>, and \<^verbatim>\<open>IsPartial\<close>.
\<close>

record transcript_result =
  Alternatives :: "string list"
  IsPartial :: bool

text \<open>
  \<^verbatim>\<open>handleEventStreamMessage\<close> (lines 384 to 417) on \<^verbatim>\<open>messageJson.Transcript.Results\<close>;
  \<open>now\<close> is the value of \<^verbatim>\<open>Date.now()\<close>.
\<close>

definition handleEventStreamMessage ::
  "builtins \<Rightarrow> nat \<Rightarrow> transcript_result list \<Rightarrow> session \<Rightarrow> session outcome" where
  "handleEventStreamMessage env now results s =
     (if 0 < length results
      then (if 0 < length (Alternatives (hd results))
            then let s = s\<lparr>utteranceLastEvent := Some now\<rparr>
                 in (case decodeURIComponent env (hd (Alternatives (hd results))) of
                       None \<Rightarrow> Thrown URIError s
                     | Some transcript \<Rightarrow>
                         if \<not> IsPartial (hd results)
                         then let s = s\<lparr>transcription := transcription s @ transcript @ [CHR 0x0A]\<rparr>;
                                  s = s\<lparr>utterance := utterance s @ transcription s\<rparr>
                              in Returned (s\<lparr>transcription := []\<rparr>)
                         else Returned s)
            else Returned s)
      else if \<not> isListening s
      then (if 2 < length (js_split_nonword (js_trim (utterance s)))
            then let s = (case decodeURIComponent env (escape env (utterance s)) of
                            None \<Rightarrow> s
                          | Some decoded \<Rightarrow> s\<lparr>utterance := decoded\<rparr>);
                     s = s\<lparr>inputText_value := inputText_value s @ '' '' @ utterance s\<rparr>;
                     s = s\<lparr>sendButton_disabled := False\<rparr>
                 in (case (if allowAudioInputOnly s then sendButton_click s else Returned s) of
                       Thrown e s \<Rightarrow> Thrown e s
                     | Returned s \<Rightarrow> Returned (s\<lparr>utterance := [], transcription := []\<rparr>))
            else Returned s)
      else Returned s)"

text \<open>
  A run of transcript events, each with its time stamp; a throw ends one listener only.
\<close>

fun transcript_step :: "builtins \<Rightarrow> session \<Rightarrow> nat \<times> transcript_result list \<Rightarrow> session" where
  "transcript_step env s (now, results) = state_of (handleEventStreamMessage env now results s)"

definition transcript_run ::
  "builtins \<Rightarrow> session \<Rightarrow> (nat \<times> transcript_result list) list \<Rightarrow> session" where
  "transcript_run env s evs = foldl (transcript_step env) s evs"

section \<open>Transcription channel\<close>

text \<open>
  The message built by \<^verbatim>\<open>getAudioEventMessage\<close>; \<^verbatim>\<open>mic.toRaw\<close> and
  \<^verbatim>\<open>eventStreamMarshaller.marshall\<close> come from libraries and are parameters; \<open>None\<close> from
  \<open>toRaw\<close> is \<^verbatim>\<open>null\<close>.
\<close>

record audio_event_message =
  headers :: "(string \<times> string \<times> string) list"
  body :: "8 word list"

record audio_library =
  toRaw :: "8 word list \<Rightarrow> jsnum list option"
  marshall :: "audio_event_message \<Rightarrow> 8 word list"

definition getAudioEventMessage :: "8 word list \<Rightarrow> audio_event_message" where
  "getAudioEventMessage buffer =
     \<lparr> headers = [('':message-type'', ''string'', ''event''),
                  ('':event-type'', ''string'', ''AudioEvent'')],
       body = buffer \<rparr>"

definition convertAudioToBinaryMessage ::
  "audio_library \<Rightarrow> session \<Rightarrow> 8 word list \<Rightarrow> js_error + ws_data" where
  "convertAudioToBinaryMessage lib s audioChunk =
     (case toRaw lib audioChunk of
        None \<Rightarrow> Inr Undefined
      | Some raw \<Rightarrow>
          (case downsampleBuffer raw (micSampleRate s) (Some transcribeSampleRate) of
             Inl e \<Rightarrow> Inl e
           | Inr downsampledBuffer \<Rightarrow>
               Inr (Binary (marshall lib (getAudioEventMessage (pcmEncode downsampledBuffer))))))"

text \<open>
  \<^verbatim>\<open>websocketTranscribe.send\<close>: a socket that is still connecting throws, one that is
  closing or closed drops the data.
\<close>

definition websocketTranscribe_send :: "ws_data \<Rightarrow> session \<Rightarrow> session outcome" where
  "websocketTranscribe_send d s =
     (case websocketTranscribe s of
        None \<Rightarrow> Thrown TypeError s
      | Some CONNECTING \<Rightarrow> Thrown InvalidStateError s
      | Some OPEN \<Rightarrow> Returned (emit (TranscribeSend d) s)
      | Some _ \<Rightarrow> Returned s)"

text \<open>The \<^verbatim>\<open>data\<close> listener of the microphone stream (lines 437 to 454).\<close>

definition micStream_ondata :: "audio_library \<Rightarrow> 8 word list \<Rightarrow> session \<Rightarrow> session outcome" where
  "micStream_ondata lib rawAudioChunk s =
     (case convertAudioToBinaryMessage lib s rawAudioChunk of
        Inl e \<Rightarrow> Thrown e s
      | Inr binary \<Rightarrow>
          (if websocketTranscribe s = None then Thrown TypeError s
           else if websocketTranscribe s = Some OPEN \<and> \<not> isSpeaking s \<and> isListening s
           then websocketTranscribe_send binary (updateStatus ''Listening'' ''success'' ''mic'' s)
           else (case convertAudioToBinaryMessage lib s (replicate 16384 0) of
                   Inl e \<Rightarrow> Thrown e s
                 | Inr emptyBinary \<Rightarrow> websocketTranscribe_send emptyBinary s)))"




subsection \<open>What the specification says of the audio front-end\<close>

text \<open>
  The samples of \<open>buffer\<close> at the indices \<open>lo \<le> i < hi\<close>, for \<open>0 \<le> lo\<close> and
  \<open>hi \<le> length buffer\<close>, and the arithmetic mean of a list of samples: their sum
  divided by their number, in the numbers of the program (the mean of no sample is
  \<open>0 / 0\<close>, NaN).
\<close>

definition window :: "'a list \<Rightarrow> int \<Rightarrow> int \<Rightarrow> 'a list" where
  "window buffer lo hi = take (nat (hi - lo)) (drop (nat lo) buffer)"

definition arithmetic_mean :: "jsnum list \<Rightarrow> jsnum" where
  "arithmetic_mean ws = js_div_count (foldl js_add (Num 0) ws) (length ws)"

text \<open>
  The 16-bit value of a finite sample in the specification's words: clamp to \<open>[-1, 1]\<close>,
  scale a negative value by 32768 and a non-negative one by 32767, drop the fraction.
\<close>

definition pcm_value :: "rat \<Rightarrow> int" where
  "pcm_value q =
     (let s = max (- 1) (min 1 q) in js_trunc (if s < 0 then s * 32768 else s * 32767))"

subsection \<open>Reading the traces\<close>






text \<open>The action tags that \<^verbatim>\<open>queueProcessor\<close> compares against.\<close>

definition recognized_actions :: "string list" where
  "recognized_actions =
     [''PLAY_RESPONSE'', ''PLAY_FEEDBACK'', ''PLAY_RINGTONE'', ''DISPLAY_RESPONSE'',
      ''DISPLAY_FEEDBACK'', ''REASONING'', ''TRANSCRIBE_CONNECTION'', ''FEEDBACK_END'',
      ''WAIT'', ''ERROR'']"


text \<open>
  The effects added between two states, the control messages among a list of effects, and
  the utterances among a list of control messages.
\<close>

definition new_effects :: "session \<Rightarrow> session \<Rightarrow> effect list" where
  "new_effects s s' = drop (length (effects s)) (effects s')"

fun sent_messages :: "effect list \<Rightarrow> app_message list" where
  "sent_messages [] = []"
| "sent_messages (ApplicationSend m # es) = m # sent_messages es"
| "sent_messages (e # es) = sent_messages es"

fun utterances_of :: "app_message list \<Rightarrow> string list" where
  "utterances_of [] = []"
| "utterances_of (SendUtterance t # ms) = t # utterances_of ms"
| "utterances_of (m # ms) = utterances_of ms"

text \<open>
  The pending utterance after the re-decoding of lines 402 to 406: the decoded text, or
  the text as it was when the decoding throws.
\<close>

definition redecode :: "builtins \<Rightarrow> string \<Rightarrow> string" where
  "redecode env u = (case decodeURIComponent env (escape env u) of None \<Rightarrow> u | Some d \<Rightarrow> d)"

subsection \<open>Instances of the parameters, for the examples\<close>

text \<open>
  \<^verbatim>\<open>escape\<close> on 8-bit characters, and a \<^verbatim>\<open>decodeURIComponent\<close> that agrees with the
  browser's on every string whose escapes stay below \<^verbatim>\<open>%80\<close>; it gives up (as on a
  malformed escape) where a multi-byte sequence starts.
\<close>

definition hex_char :: "nat \<Rightarrow> char" where
  "hex_char n = ''0123456789ABCDEF'' ! (n mod 16)"

definition escape_char :: "char \<Rightarrow> string" where
  "escape_char c =
     (if is_word_char c \<or> c \<in> set ''@*+-./'' then [c]
      else [CHR ''%'', hex_char ((of_char c :: nat) div 16), hex_char (of_char c :: nat)])"

definition hex_value :: "char \<Rightarrow> nat option" where
  "hex_value c =
     (let n = (of_char c :: nat)
      in if 48 \<le> n \<and> n \<le> 57 then Some (n - 48)
         else if 65 \<le> n \<and> n \<le> 70 then Some (n - 55)
         else if 97 \<le> n \<and> n \<le> 102 then Some (n - 87)
         else None)"

fun ascii_decode :: "string \<Rightarrow> string option" where
  "ascii_decode [] = Some []"
| "ascii_decode (c # cs) =
     (if c = CHR ''%''
      then (case cs of
              h # l # rest \<Rightarrow>
                (case (hex_value h, hex_value l) of
                   (Some a, Some b) \<Rightarrow>
                     if 16 * a + b < 128
                     then map_option ((#) (char_of (16 * a + b))) (ascii_decode rest)
                     else None
                 | _ \<Rightarrow> None)
            | _ \<Rightarrow> None)
      else map_option ((#) c) (ascii_decode cs))"

definition ascii_builtins :: builtins where
  "ascii_builtins = \<lparr> decodeURIComponent = ascii_decode, escape = concat \<circ> map escape_char \<rparr>"

text \<open>A stand-in for the audio libraries: one sample per byte, and the frame is its body.\<close>

definition example_library :: audio_library where
  "example_library =
     \<lparr> toRaw = (\<lambda>chunk. Some (map (\<lambda>b. Num (of_int (sint b) / 128)) chunk)),
       marshall = body \<rparr>"

declare accumulate.simps [simp del] downsample_loop.simps [simp del]
declare queueProcessor.simps [simp del] queueProcessorCompletedAction.simps [simp del]
declare send_queued.simps [simp del] js_split_nonword.simps [simp del]

section \<open>Properties of the audio front-end\<close>

lemma window_step:
  assumes "0 \<le> i" "i < hi" "hi \<le> int (length buffer)"
  shows "window buffer i hi = buffer_at buffer i # window buffer (i + 1) hi"
proof -
  have n: "nat i < length buffer" using assms by linarith
  have "nat (hi - i) = Suc (nat (hi - (i + 1)))" using assms by linarith
  moreover have "nat (i + 1) = Suc (nat i)" using assms by linarith
  moreover have "drop (nat i) buffer = buffer ! nat i # drop (Suc (nat i)) buffer"
    using n by (simp add: Cons_nth_drop_Suc)
  ultimately show ?thesis
    using n assms by (simp add: window_def buffer_at_def)
qed

lemma window_empty: "hi \<le> lo \<Longrightarrow> window buffer lo hi = []"
  by (simp add: window_def)

lemma accumulate_window:
  "0 \<le> i \<Longrightarrow>
   accumulate buffer n i accum count =
     (foldl js_add accum (window buffer i (min n (int (length buffer)))),
      count + length (window buffer i (min n (int (length buffer)))))"
proof (induction buffer n i accum count rule: accumulate.induct)
  case (1 buffer n i accum count)
  show ?case
  proof (cases "i < n \<and> i < int (length buffer)")
    case True
    then have w: "window buffer i (min n (int (length buffer))) =
        buffer_at buffer i # window buffer (i + 1) (min n (int (length buffer)))"
      using "1.prems" by (intro window_step) auto
    have "0 \<le> i + 1" using "1.prems" by simp
    from "1.IH" [OF True this] True w show ?thesis
      by (subst accumulate.simps) simp
  next
    case False
    then have "window buffer i (min n (int (length buffer))) = []"
      by (intro window_empty) auto
    with False show ?thesis by (subst accumulate.simps) auto
  qed
qed

lemma js_round_nonneg: "0 \<le> x \<Longrightarrow> 0 \<le> js_round x"
  by (simp add: js_round_def)

lemma js_round_0: "js_round 0 = 0"
  unfolding js_round_def by (rule floor_unique) simp_all

lemma downsample_loop_length:
  "length (downsample_loop buffer R result k ob) = length result"
proof (induction buffer R result k ob rule: downsample_loop.induct)
  case (1 buffer R result k ob)
  show ?case
  proof (cases "k < length result")
    case True
    obtain a c where ac: "accumulate buffer (js_round ((of_nat k + 1) * R)) ob (Num 0) 0 = (a, c)"
      by fastforce
    from "1.IH" [OF True refl refl ac [symmetric]] True ac show ?thesis
      by (subst downsample_loop.simps) (simp add: Let_def)
  next
    case False
    then show ?thesis by (subst downsample_loop.simps) simp
  qed
qed

lemma downsample_loop_nth:
  assumes "0 \<le> R" "ob = js_round (of_nat k * R)" "j < length result"
  shows "downsample_loop buffer R result k ob ! j =
     (if j < k then result ! j
      else arithmetic_mean (window buffer (js_round (of_nat j * R))
             (min (js_round ((of_nat j + 1) * R)) (int (length buffer)))))"
  using assms
proof (induction buffer R result k ob rule: downsample_loop.induct)
  case (1 buffer R result k ob)
  show ?case
  proof (cases "k < length result")
    case True
    let ?n = "js_round ((of_nat k + 1) * R)"
    have ob0: "0 \<le> ob" using "1.prems" by (simp add: js_round_nonneg)
    have ac: "accumulate buffer ?n ob (Num 0) 0 =
        (foldl js_add (Num 0) (window buffer ob (min ?n (int (length buffer)))),
         length (window buffer ob (min ?n (int (length buffer)))))"
      using accumulate_window [OF ob0, of buffer ?n "Num 0" 0] by simp
    let ?v = "arithmetic_mean (window buffer ob (min ?n (int (length buffer))))"
    have n': "?n = js_round (of_nat (Suc k) * R)" by (simp add: add.commute)
    have jl: "j < length (result[k := ?v])" using "1.prems" by simp
    have ih: "downsample_loop buffer R (result[k := ?v]) (Suc k) ?n ! j =
       (if j < Suc k then result[k := ?v] ! j
        else arithmetic_mean (window buffer (js_round (of_nat j * R))
             (min (js_round ((of_nat j + 1) * R)) (int (length buffer)))))"
      using "1.IH" [OF True refl refl ac [symmetric] "1.prems"(1) n'] jl
      by (simp add: arithmetic_mean_def)
    have unf: "downsample_loop buffer R result k ob =
        downsample_loop buffer R (result[k := ?v]) (Suc k) ?n"
      using True ac by (subst downsample_loop.simps) (simp add: arithmetic_mean_def Let_def)
    show ?thesis
    proof (cases "j = k")
      case True
      then show ?thesis using ih unf "1.prems" by simp
    next
      case False
      then show ?thesis using ih unf "1.prems" by auto
    qed
  next
    case False
    then show ?thesis using "1.prems" by (subst downsample_loop.simps) simp
  qed
qed

lemma arithmetic_mean_finite:
  "arithmetic_mean (map Num qs) =
     (if qs = [] then NaN else Num (sum_list qs / of_nat (length qs)))"
proof -
  have "foldl js_add (Num a) (map Num qs) = Num (a + sum_list qs)" for a
    by (induction qs arbitrary: a) (simp_all add: add.assoc)
  from this [of 0] show ?thesis by (simp add: arithmetic_mean_def)
qed


lemma pcm_value_range: "- 32768 \<le> pcm_value q \<and> pcm_value q \<le> 32767"
  by (auto simp: pcm_value_def js_trunc_def Let_def min_def max_def split: if_splits)

lemma pcm_scaled_finite:
  "pcm_scaled (Num q) =
     Num (let s = max (- 1) (min 1 q) in if s < 0 then s * 32768 else s * 32767)"
  by (auto simp: pcm_scaled_def pcm_clamp_def Let_def)

lemma sint_word16_of_int:
  assumes "- 32768 \<le> t" "t \<le> 32767"
  shows "sint (word_of_int t :: 16 word) = t"
proof -
  have "signed_take_bit 15 t = t"
    using assms by (intro signed_take_bit_int_eq_self) simp_all
  then show ?thesis by (simp add: signed_of_int)
qed

lemma pcm_sample_finite: "sint (pcm_sample (Num q)) = pcm_value q"
proof -
  have "pcm_sample (Num q) = word_of_int (pcm_value q)"
    by (simp add: pcm_sample_def pcm_scaled_finite pcm_value_def Let_def)
  then show ?thesis
    using pcm_value_range [of q] by (simp add: sint_word16_of_int)
qed

lemma int16_le_cat: "word_cat (int16_le w ! 1) (int16_le w ! 0) = w"
  unfolding int16_le_def by (rule bit_word_eqI) (auto simp add: bit_simps)

lemma pcmEncode_length: "length (pcmEncode xs) = 2 * length xs"
  by (induction xs) (simp_all add: int16_le_def)

lemma pcmEncode_bytes:
  "k < length xs \<Longrightarrow>
   [pcmEncode xs ! (2 * k), pcmEncode xs ! (2 * k + 1)] = int16_le (pcm_sample (xs ! k))"
proof (induction xs arbitrary: k)
  case Nil
  then show ?case by simp
next
  case (Cons x xs)
  show ?case
  proof (cases k)
    case 0
    then show ?thesis by (simp add: int16_le_def)
  next
    case (Suc j)
    with Cons.prems have "j < length xs" by simp
    from Cons.IH [OF this] Suc show ?thesis by (simp add: int16_le_def)
  qed
qed

text \<open>
  Claim C6. Every sample is clamped and scaled as the specification says: a finite sample
  \<open>q\<close> is stored as \<open>pcm_value q\<close> (clamped to \<open>[-1, 1]\<close>, a negative value times 32768,
  a non-negative one times 32767, the fraction dropped), which lies in the signed 16-bit
  range, so the conversion to 16 bits never wraps; \<open>- 1\<close> gives \<open>- 32768\<close> and \<open>1\<close> gives
  32767. Plus and minus infinity are clamped to these two ends, and NaN, which no clamp
  changes, is stored as 0. Each sample takes two bytes of the output, the low byte first.
\<close>

theorem pcmEncode_clamp_scale:
  "sint (pcm_sample (Num q)) = pcm_value q
   \<and> - 32768 \<le> pcm_value q \<and> pcm_value q \<le> 32767
   \<and> pcm_value (- 1) = - 32768 \<and> pcm_value 1 = 32767
   \<and> sint (pcm_sample PosInf) = 32767 \<and> sint (pcm_sample NegInf) = - 32768
   \<and> sint (pcm_sample NaN) = 0
   \<and> length (pcmEncode xs) = 2 * length xs
   \<and> (\<forall>k<length xs.
        word_cat (pcmEncode xs ! (2 * k + 1)) (pcmEncode xs ! (2 * k)) = pcm_sample (xs ! k))"
proof -
  have a: "pcm_value (- 1) = - 32768 \<and> pcm_value 1 = 32767"
    by (simp add: pcm_value_def js_trunc_def)
  have b: "sint (pcm_sample PosInf) = 32767 \<and> sint (pcm_sample NegInf) = - 32768
      \<and> sint (pcm_sample NaN) = 0"
    by (simp add: pcm_sample_def pcm_scaled_def pcm_clamp_def js_trunc_def)
  have c: "word_cat (pcmEncode xs ! (2 * k + 1)) (pcmEncode xs ! (2 * k)) = pcm_sample (xs ! k)"
    if "k < length xs" for k
  proof -
    from pcmEncode_bytes [OF that]
    have "pcmEncode xs ! (2 * k) = int16_le (pcm_sample (xs ! k)) ! 0"
      and "pcmEncode xs ! (2 * k + 1) = int16_le (pcm_sample (xs ! k)) ! 1"
      by (simp_all add: int16_le_def)
    then show ?thesis by (simp only: int16_le_cat)
  qed
  show ?thesis
    using pcm_sample_finite [of q] pcm_value_range [of q] a b c pcmEncode_length [of xs]
    by blast
qed

theorem pcmEncode_clamp_scale_witness:
  "pcmEncode [Num (- 1), Num 1, Num (1 / 2), NaN] = [0, 128, 255, 127, 255, 63, 0, 0]
   \<and> word_cat (pcmEncode [Num (- 1), Num 1, Num (1 / 2), NaN] ! 5)
        (pcmEncode [Num (- 1), Num 1, Num (1 / 2), NaN] ! 4) = pcm_sample (Num (1 / 2))
   \<and> sint (pcm_sample (Num (1 / 2))) = 16383"
proof -
  have e: "pcmEncode [Num (- 1), Num 1, Num (1 / 2), NaN] = [0, 128, 255, 127, 255, 63, 0, 0]"
    by code_simp
  have v: "pcm_value (1 / 2) = 16383"
    by code_simp
  from pcmEncode_clamp_scale [of "1 / 2" "[Num (- 1), Num 1, Num (1 / 2), NaN]"]
  have "sint (pcm_sample (Num (1 / 2))) = pcm_value (1 / 2)"
    and "\<forall>k<length [Num (- 1), Num 1, Num (1 / 2), NaN].
        word_cat (pcmEncode [Num (- 1), Num 1, Num (1 / 2), NaN] ! (2 * k + 1))
          (pcmEncode [Num (- 1), Num 1, Num (1 / 2), NaN] ! (2 * k))
        = pcm_sample ([Num (- 1), Num 1, Num (1 / 2), NaN] ! k)"
    by blast+
  from this(1) v this(2) [rule_format, of 2] e show ?thesis by simp
qed


lemma downsampleBuffer_positive:
  assumes "0 < inR" "0 < outR" "inR \<noteq> outR"
  shows "downsampleBuffer buffer (Some inR) (Some outR) =
     Inr (downsample_loop buffer (inR / outR)
            (replicate (nat (js_round (of_nat (length buffer) / (inR / outR)))) (Num 0)) 0 0)"
    and "0 \<le> js_round (of_nat (length buffer) / (inR / outR))"
proof -
  have "0 \<le> of_nat (length buffer) / (inR / outR)" using assms by simp
  then show "0 \<le> js_round (of_nat (length buffer) / (inR / outR))"
    by (rule js_round_nonneg)
  then show "downsampleBuffer buffer (Some inR) (Some outR) =
     Inr (downsample_loop buffer (inR / outR)
            (replicate (nat (js_round (of_nat (length buffer) / (inR / outR)))) (Num 0)) 0 0)"
    using assms by (auto simp: downsampleBuffer_def default_to_def Let_def)
qed










section \<open>Properties of the control and transcription channels\<close>

lemma send_queued_eq:
  "send_queued s =
     s\<lparr>websocketApplicationQueue := [],
        effects := effects s @ map ApplicationSend (websocketApplicationQueue s)\<rparr>"
proof (induction s rule: send_queued.induct)
  case (1 s)
  show ?case
  proof (cases "websocketApplicationQueue s")
    case Nil
    then show ?thesis
      by (subst send_queued.simps) (cases s, simp)
  next
    case (Cons m ms)
    then have pos: "0 < length (websocketApplicationQueue s)" by simp
    from "1.IH" [OF pos refl refl] Cons show ?thesis
      by (subst send_queued.simps) (simp add: emit_def Let_def)
  qed
qed






section \<open>Properties of the playback sequencer\<close>

lemma ready_when_empty_idem: "ready_when_empty (ready_when_empty r) = ready_when_empty r"
  by (cases r) (simp_all add: ready_when_empty_def updateStatus_def)

lemma queueProcessor_ready: "ready_when_empty (queueProcessor data s) = queueProcessor data s"
  by (subst (1 2) queueProcessor.simps) (simp add: Let_def ready_when_empty_idem)

lemma dispatch_unrecognized:
  "action queueItem \<notin> Some ` set recognized_actions \<Longrightarrow> dispatch queueItem s = Immediate s"
  by (simp add: dispatch_def recognized_actions_def)

text \<open>
  Claim C9. An item whose action tag is none of the recognized ones is taken off the
  queue and completed at once: processing a queue that starts with it is processing the
  rest of the queue (only the history records the dequeue and the completion), and when it
  arrives at an idle, empty sequencer the call returns with nothing displayed or played, the
  queue empty and the processing flag clear.
\<close>

theorem queueProcessor_unrecognized:
  assumes "action queueItem \<notin> Some ` set recognized_actions"
    and "\<not> isQueueProcessing s"
  shows "(websocketQueue s = queueItem # rest \<longrightarrow>
            queueProcessor None s =
              queueProcessor None
                (s\<lparr>websocketQueue := rest,
                   history := history s @ [Dequeued queueItem, Completed]\<rparr>))
    \<and> (websocketQueue s = [] \<longrightarrow>
            queueProcessor (Some queueItem) s =
              Returned (s\<lparr>statusDiv := (''Ready'', ''success'', ''check-square''),
                          history := history s @ [Dequeued queueItem, Completed]\<rparr>))"
proof (intro conjI impI)
  assume q: "websocketQueue s = queueItem # rest"
  let ?s2 = "s\<lparr>isQueueProcessing := True, websocketQueue := rest,
                history := history s @ [Dequeued queueItem]\<rparr>"
  have "queueProcessor None s = ready_when_empty (queueProcessorCompletedAction ?s2)"
    using assms q
    by (subst queueProcessor.simps) (simp add: Let_def dispatch_unrecognized)
  also have "queueProcessorCompletedAction ?s2 =
      queueProcessor None
        (s\<lparr>websocketQueue := rest, history := history s @ [Dequeued queueItem, Completed]\<rparr>)"
    using assms(2) by (subst queueProcessorCompletedAction.simps) (cases s, simp)
  finally show "queueProcessor None s =
      queueProcessor None
        (s\<lparr>websocketQueue := rest, history := history s @ [Dequeued queueItem, Completed]\<rparr>)"
    by (simp only: queueProcessor_ready)
next
  assume q: "websocketQueue s = []"
  let ?s2 = "s\<lparr>isQueueProcessing := True, websocketQueue := [],
                history := history s @ [Dequeued queueItem]\<rparr>"
  let ?s3 = "s\<lparr>websocketQueue := [], history := history s @ [Dequeued queueItem, Completed]\<rparr>"
  have "queueProcessor (Some queueItem) s = ready_when_empty (queueProcessorCompletedAction ?s2)"
    using assms q
    by (subst queueProcessor.simps) (simp add: Let_def dispatch_unrecognized)
  also have "queueProcessorCompletedAction ?s2 = queueProcessor None ?s3"
    using assms(2) by (subst queueProcessorCompletedAction.simps) (cases s, simp)
  finally have "queueProcessor (Some queueItem) s = queueProcessor None ?s3"
    by (simp only: queueProcessor_ready)
  also have "queueProcessor None ?s3 =
      Returned (?s3\<lparr>statusDiv := (''Ready'', ''success'', ''check-square'')\<rparr>)"
    by (subst queueProcessor.simps) (simp add: Let_def ready_when_empty_def updateStatus_def)
  also have "?s3\<lparr>statusDiv := (''Ready'', ''success'', ''check-square'')\<rparr> =
      s\<lparr>statusDiv := (''Ready'', ''success'', ''check-square''),
        history := history s @ [Dequeued queueItem, Completed]\<rparr>"
    using q by (cases s) simp
  finally show "queueProcessor (Some queueItem) s =
      Returned (s\<lparr>statusDiv := (''Ready'', ''success'', ''check-square''),
                  history := history s @ [Dequeued queueItem, Completed]\<rparr>)" .
qed

theorem queueProcessor_unrecognized_witness:
  "action \<lparr>action = Some ''PROVIDE_FEEDBACK'', item_value = None, item_type = None\<rparr>
     \<notin> Some ` set recognized_actions
   \<and> \<not> isQueueProcessing init_session
   \<and> queueProcessor
       (Some \<lparr>action = Some ''PROVIDE_FEEDBACK'', item_value = None, item_type = None\<rparr>)
       init_session =
     Returned (init_session
       \<lparr>statusDiv := (''Ready'', ''success'', ''check-square''),
        history := [Dequeued \<lparr>action = Some ''PROVIDE_FEEDBACK'', item_value = None,
                     item_type = None\<rparr>, Completed]\<rparr>)"
proof -
  let ?d = "\<lparr>action = Some ''PROVIDE_FEEDBACK'', item_value = None, item_type = None\<rparr>"
  have a: "action ?d \<notin> Some ` set recognized_actions"
    by (simp add: recognized_actions_def)
  have b: "\<not> isQueueProcessing init_session" "websocketQueue init_session = []"
    "history init_session = []"
    by (simp_all add: init_session_def)
  from queueProcessor_unrecognized [OF a b(1), of "[]"] b a show ?thesis by simp
qed
















section \<open>Properties of the microphone listener\<close>

lemma foldl_js_add_zeros: "set ws \<subseteq> {Num 0} \<Longrightarrow> foldl js_add (Num 0) ws = Num 0"
  by (induction ws) auto

lemma arithmetic_mean_zeros:
  "set ws \<subseteq> {Num 0} \<Longrightarrow> arithmetic_mean ws = Num 0 \<or> arithmetic_mean ws = NaN"
  by (simp add: arithmetic_mean_def foldl_js_add_zeros)

lemma window_subset: "set (window buffer lo hi) \<subseteq> set buffer"
  unfolding window_def by (meson in_set_dropD in_set_takeD subsetI)

lemma downsample_loop_zeros:
  assumes "set buffer \<subseteq> {Num 0}" "0 \<le> R" "k < n"
  shows "downsample_loop buffer R (replicate n (Num 0)) 0 0 ! k = Num 0
       \<or> downsample_loop buffer R (replicate n (Num 0)) 0 0 ! k = NaN"
proof -
  let ?w = "window buffer (js_round (of_nat k * R))
      (min (js_round ((of_nat k + 1) * R)) (int (length buffer)))"
  have kl: "k < length (replicate n (Num 0 :: jsnum))" using assms(3) by simp
  have z: "(0::int) = js_round (of_nat 0 * R)" by (simp add: js_round_0)
  have "downsample_loop buffer R (replicate n (Num 0)) 0 0 ! k = arithmetic_mean ?w"
    using downsample_loop_nth [OF assms(2) z kl, of buffer] by simp
  moreover have "set ?w \<subseteq> {Num 0}"
    using window_subset [of buffer] assms(1) by (rule subset_trans)
  ultimately show ?thesis
    using arithmetic_mean_zeros [of ?w] by (simp only:)
qed


lemma downsampleBuffer_zeros:
  assumes "set buffer \<subseteq> {Num 0}" "0 < inR" "0 < outR"
  shows "\<exists>d. downsampleBuffer buffer (Some inR) (Some outR) = Inr d
            \<and> (\<forall>x\<in>set d. x = Num 0 \<or> x = NaN)"
proof (cases "inR = outR")
  case True
  then have "downsampleBuffer buffer (Some inR) (Some outR) = Inr buffer"
    by (simp add: downsampleBuffer_def default_to_def)
  moreover have "\<forall>x\<in>set buffer. x = Num 0 \<or> x = NaN" using assms(1) by blast
  ultimately show ?thesis by (intro exI conjI)
next
  case False
  let ?R = "inR / outR"
  let ?n = "nat (js_round (of_nat (length buffer) / ?R))"
  let ?res = "downsample_loop buffer ?R (replicate ?n (Num 0)) 0 0"
  have R: "0 \<le> ?R" using assms(2,3) by simp
  have eq: "downsampleBuffer buffer (Some inR) (Some outR) = Inr ?res"
    using downsampleBuffer_positive(1) [OF assms(2,3) False] .
  have len: "length ?res = ?n" by (simp only: downsample_loop_length length_replicate)
  have "\<forall>k<length ?res. ?res ! k = Num 0 \<or> ?res ! k = NaN"
    using downsample_loop_zeros [OF assms(1) R] unfolding len by blast
  then have "\<forall>x\<in>set ?res. x = Num 0 \<or> x = NaN"
    by (simp only: all_set_conv_all_nth)
  with eq show ?thesis by (intro exI conjI)
qed

lemma pcm_sample_silent: "pcm_sample (Num 0) = 0" "pcm_sample NaN = 0"
  by (simp_all add: pcm_sample_def pcm_scaled_def pcm_clamp_def js_trunc_def)

lemma pcmEncode_silent:
  "\<forall>x\<in>set d. x = Num 0 \<or> x = NaN \<Longrightarrow> pcmEncode d = replicate (2 * length d) 0"
  by (induction d) (auto simp: pcm_sample_silent int16_le_def)

lemma new_effects_emit: "new_effects s (emit e s) = [e]"
  by (simp add: new_effects_def emit_def)

lemma new_effects_same: "new_effects s s = []"
  by (simp add: new_effects_def)

lemma micStream_ondata_silence:
  assumes "websocketTranscribe s \<noteq> None"
    and "\<not> (websocketTranscribe s = Some OPEN \<and> \<not> isSpeaking s \<and> isListening s)"
    and "convertAudioToBinaryMessage lib s rawAudioChunk = Inr binary"
  shows "micStream_ondata lib rawAudioChunk s =
     (case convertAudioToBinaryMessage lib s (replicate 16384 0) of
        Inl e \<Rightarrow> Thrown e s
      | Inr emptyBinary \<Rightarrow> websocketTranscribe_send emptyBinary s)"
  unfolding micStream_ondata_def using assms by (simp only: sum.case if_False if_not_P)

lemma micStream_ondata_live:
  assumes "websocketTranscribe s = Some OPEN" "\<not> isSpeaking s" "isListening s"
    and "convertAudioToBinaryMessage lib s rawAudioChunk = Inr binary"
  shows "micStream_ondata lib rawAudioChunk s
      = Returned (emit (TranscribeSend binary) (updateStatus ''Listening'' ''success'' ''mic'' s))"
  using assms by (simp add: micStream_ondata_def websocketTranscribe_send_def updateStatus_def)

lemma websocketTranscribe_send_effects:
  "new_effects s (state_of (websocketTranscribe_send d s)) = []
   \<or> new_effects s (state_of (websocketTranscribe_send d s)) = [TranscribeSend d]"
  by (simp add: websocketTranscribe_send_def new_effects_same new_effects_emit
        split: option.splits ready_state.splits)

lemma micStream_ondata_only_silence:
  assumes "\<not> (websocketTranscribe s = Some OPEN \<and> \<not> isSpeaking s \<and> isListening s)"
  shows "new_effects s (state_of (micStream_ondata lib rawAudioChunk s)) = []
         \<or> (\<exists>silence. convertAudioToBinaryMessage lib s (replicate 16384 0) = Inr silence
               \<and> new_effects s (state_of (micStream_ondata lib rawAudioChunk s))
                   = [TranscribeSend silence])"
proof (cases "convertAudioToBinaryMessage lib s rawAudioChunk")
  case (Inl e)
  then show ?thesis by (simp add: micStream_ondata_def new_effects_same)
next
  case (Inr binary)
  show ?thesis
  proof (cases "websocketTranscribe s = None")
    case True
    with Inr show ?thesis by (simp add: micStream_ondata_def new_effects_same)
  next
    case False
    note unf = micStream_ondata_silence [OF False assms Inr]
    show ?thesis
    proof (cases "convertAudioToBinaryMessage lib s (replicate 16384 0)")
      case (Inl e)
      with unf show ?thesis by (simp add: new_effects_same)
    next
      case silence: (Inr silence)
      with unf have "micStream_ondata lib rawAudioChunk s = websocketTranscribe_send silence s"
        by simp
      with websocketTranscribe_send_effects [of s silence] silence show ?thesis by simp
    qed
  qed
qed

lemma silence_zero_filled:
  assumes "toRaw lib (replicate 16384 0) = Some raw" "set raw \<subseteq> {Num 0}"
    and "0 < default_to 44100 (micSampleRate s)"
  shows "\<exists>n. convertAudioToBinaryMessage lib s (replicate 16384 0)
      = Inr (Binary (marshall lib (getAudioEventMessage (replicate n 0))))"
proof -
  have "(0::rat) < 16000" by simp
  from downsampleBuffer_zeros [OF assms(2,3) this]
  obtain d where d: "downsampleBuffer raw (Some (default_to 44100 (micSampleRate s))) (Some 16000)
      = Inr d" "\<forall>x\<in>set d. x = Num 0 \<or> x = NaN"
    by blast
  have "downsampleBuffer raw (micSampleRate s) (Some transcribeSampleRate)
      = downsampleBuffer raw (Some (default_to 44100 (micSampleRate s))) (Some 16000)"
    by (simp add: downsampleBuffer_def transcribeSampleRate_def default_to_def)
  with d(1) have "downsampleBuffer raw (micSampleRate s) (Some transcribeSampleRate) = Inr d"
    by simp
  with assms(1) pcmEncode_silent [OF d(2)]
  have "convertAudioToBinaryMessage lib s (replicate 16384 0)
      = Inr (Binary (marshall lib (getAudioEventMessage (replicate (2 * length d) 0))))"
    by (simp add: convertAudioToBinaryMessage_def)
  then show ?thesis by blast
qed


text \<open>
  Claim C2. With the transcription socket open and the session speaking or not listening,
  a captured chunk whose conversion succeeds makes the listener send exactly one message,
  the conversion of 16384 zero bytes, which does not depend on the chunk. Whenever the
  socket is not open, or the session is speaking or not listening, the listener sends
  nothing or that message, never the converted chunk; the converted chunk is sent, alone,
  when the socket is open and the session is listening and not speaking. When the library
  reads zero bytes as zero samples and the microphone rate is positive (or not yet known),
  the body of that message is zero-filled.
\<close>

theorem micStream_ondata_silence_or_live:
  "(websocketTranscribe s = Some OPEN \<and> (isSpeaking s \<or> \<not> isListening s)
      \<and> convertAudioToBinaryMessage lib s rawAudioChunk = Inr binary
      \<and> convertAudioToBinaryMessage lib s (replicate 16384 0) = Inr silence
     \<longrightarrow> micStream_ondata lib rawAudioChunk s = Returned (emit (TranscribeSend silence) s))
   \<and> (\<not> (websocketTranscribe s = Some OPEN \<and> \<not> isSpeaking s \<and> isListening s)
     \<longrightarrow> new_effects s (state_of (micStream_ondata lib rawAudioChunk s)) = []
         \<or> (\<exists>silence. convertAudioToBinaryMessage lib s (replicate 16384 0) = Inr silence
               \<and> new_effects s (state_of (micStream_ondata lib rawAudioChunk s))
                   = [TranscribeSend silence]))
   \<and> (websocketTranscribe s = Some OPEN \<and> \<not> isSpeaking s \<and> isListening s
      \<and> convertAudioToBinaryMessage lib s rawAudioChunk = Inr binary
     \<longrightarrow> micStream_ondata lib rawAudioChunk s
          = Returned (emit (TranscribeSend binary) (updateStatus ''Listening'' ''success'' ''mic'' s)))
   \<and> (toRaw lib (replicate 16384 0) = Some raw \<and> set raw \<subseteq> {Num 0}
      \<and> 0 < default_to 44100 (micSampleRate s)
     \<longrightarrow> (\<exists>n. convertAudioToBinaryMessage lib s (replicate 16384 0)
              = Inr (Binary (marshall lib (getAudioEventMessage (replicate n 0))))))"
proof (intro conjI impI)
  assume a: "websocketTranscribe s = Some OPEN \<and> (isSpeaking s \<or> \<not> isListening s)
      \<and> convertAudioToBinaryMessage lib s rawAudioChunk = Inr binary
      \<and> convertAudioToBinaryMessage lib s (replicate 16384 0) = Inr silence"
  then have "websocketTranscribe s \<noteq> None"
    and "\<not> (websocketTranscribe s = Some OPEN \<and> \<not> isSpeaking s \<and> isListening s)"
    and "convertAudioToBinaryMessage lib s rawAudioChunk = Inr binary"
    by auto
  from micStream_ondata_silence [OF this] a
  show "micStream_ondata lib rawAudioChunk s = Returned (emit (TranscribeSend silence) s)"
    by (simp add: websocketTranscribe_send_def)
next
  assume "\<not> (websocketTranscribe s = Some OPEN \<and> \<not> isSpeaking s \<and> isListening s)"
  then show "new_effects s (state_of (micStream_ondata lib rawAudioChunk s)) = []
         \<or> (\<exists>silence. convertAudioToBinaryMessage lib s (replicate 16384 0) = Inr silence
               \<and> new_effects s (state_of (micStream_ondata lib rawAudioChunk s))
                   = [TranscribeSend silence])"
    by (rule micStream_ondata_only_silence)
next
  assume "websocketTranscribe s = Some OPEN \<and> \<not> isSpeaking s \<and> isListening s
      \<and> convertAudioToBinaryMessage lib s rawAudioChunk = Inr binary"
  then show "micStream_ondata lib rawAudioChunk s
      = Returned (emit (TranscribeSend binary) (updateStatus ''Listening'' ''success'' ''mic'' s))"
    by (intro micStream_ondata_live) simp_all
next
  assume "toRaw lib (replicate 16384 0) = Some raw \<and> set raw \<subseteq> {Num 0}
      \<and> 0 < default_to 44100 (micSampleRate s)"
  then show "\<exists>n. convertAudioToBinaryMessage lib s (replicate 16384 0)
      = Inr (Binary (marshall lib (getAudioEventMessage (replicate n 0))))"
    by (intro silence_zero_filled [of lib raw s]) simp_all
qed

theorem micStream_ondata_silence_or_live_witness:
  "micStream_ondata example_library [64, 192]
      (init_session\<lparr>websocketTranscribe := Some OPEN, micSampleRate := Some 16000\<rparr>)
     = Returned (emit (TranscribeSend (Binary (replicate 32768 0)))
         (init_session\<lparr>websocketTranscribe := Some OPEN, micSampleRate := Some 16000\<rparr>))
   \<and> micStream_ondata example_library [64, 192]
      (init_session\<lparr>websocketTranscribe := Some OPEN, micSampleRate := Some 16000,
         isListening := True\<rparr>)
     = Returned (emit (TranscribeSend (Binary [255, 63, 0, 192]))
         (updateStatus ''Listening'' ''success'' ''mic''
           (init_session\<lparr>websocketTranscribe := Some OPEN, micSampleRate := Some 16000,
              isListening := True\<rparr>)))"
proof -
  let ?s = "init_session\<lparr>websocketTranscribe := Some OPEN, micSampleRate := Some 16000\<rparr>"
  let ?l = "init_session\<lparr>websocketTranscribe := Some OPEN, micSampleRate := Some 16000,
         isListening := True\<rparr>"
  have m: "micSampleRate ?s = Some 16000" "micSampleRate ?l = Some 16000"
    by (simp_all add: init_session_def)
  have d: "downsampleBuffer raw (Some 16000) (Some transcribeSampleRate) = Inr raw" for raw
    by (simp add: downsampleBuffer_def default_to_def transcribeSampleRate_def)
  have p: "pcmEncode [Num (1 / 2), Num (- 1 / 2)] = [255, 63, 0, 192]"
    by code_simp
  have r: "toRaw example_library [64, 192] = Some [Num (1 / 2), Num (- 1 / 2)]"
    by (simp add: example_library_def)
  have c: "convertAudioToBinaryMessage example_library ?s [64, 192] = Inr (Binary [255, 63, 0, 192])"
    "convertAudioToBinaryMessage example_library ?l [64, 192] = Inr (Binary [255, 63, 0, 192])"
    by (simp_all only: convertAudioToBinaryMessage_def r m d p option.case sum.case)
      (simp_all add: example_library_def getAudioEventMessage_def)
  have z0: "\<forall>x\<in>set (replicate 16384 (Num 0)). x = Num 0 \<or> x = NaN"
    by simp
  have z: "pcmEncode (replicate 16384 (Num 0)) = replicate 32768 0"
    using pcmEncode_silent [OF z0] by (simp only: length_replicate) simp
  have r0: "toRaw example_library (replicate 16384 0) = Some (replicate 16384 (Num 0))"
    by (simp add: example_library_def)
  have e: "convertAudioToBinaryMessage example_library ?s (replicate 16384 0)
      = Inr (Binary (replicate 32768 0))"
    by (simp only: convertAudioToBinaryMessage_def r0 m d z option.case sum.case)
      (simp add: example_library_def getAudioEventMessage_def)
  have f: "websocketTranscribe ?s = Some OPEN" "\<not> isListening ?s"
    "websocketTranscribe ?l = Some OPEN" "\<not> isSpeaking ?l" "isListening ?l"
    by (simp_all add: init_session_def)
  from micStream_ondata_silence_or_live
    [of ?s example_library "[64, 192]" "Binary [255, 63, 0, 192]" "Binary (replicate 32768 0)"]
    c(1) e f(1,2)
  have one: "micStream_ondata example_library [64, 192] ?s
     = Returned (emit (TranscribeSend (Binary (replicate 32768 0))) ?s)"
    by (simp only: simp_thms)
  from micStream_ondata_silence_or_live
    [of ?l example_library "[64, 192]" "Binary [255, 63, 0, 192]"]
    c(2) f(3,4,5)
  have two: "micStream_ondata example_library [64, 192] ?l
     = Returned (emit (TranscribeSend (Binary [255, 63, 0, 192]))
         (updateStatus ''Listening'' ''success'' ''mic'' ?l))"
    by (simp only: simp_thms)
  from one two show ?thesis by (rule conjI)
qed

section \<open>Properties of the utterance assembly\<close>

lemma sendButton_onclick_sends:
  assumes "inputText_value s \<noteq> []"
  shows "\<exists>s'. sendButton_onclick s = Returned s'
     \<and> utterances_of (sent_messages (new_effects s s') @ websocketApplicationQueue s')
         = [inputText_value s]
     \<and> inputText_value s' = [] \<and> sendButton_disabled s'"
proof (cases "websocketApplication s = Some OPEN")
  case True
  with assms show ?thesis
    by (simp add: sendButton_onclick_def sendUtterance_def websocketApplicationQueueProcessor_def
          send_queued_eq displayText_def emit_def updateStatus_def
          new_effects_def Let_def)
next
  case False
  with assms show ?thesis
    by (simp add: sendButton_onclick_def sendUtterance_def websocketApplicationQueueProcessor_def
          websocketApplicationConnect_def displayText_def emit_def updateStatus_def
          new_effects_def Let_def)
qed


lemma handle_partial:
  assumes "results \<noteq> []" "IsPartial (hd results)"
  shows "\<exists>t. state_of (handleEventStreamMessage env now results s) = s\<lparr>utteranceLastEvent := t\<rparr>"
proof (cases "Alternatives (hd results) = []")
  case True
  with assms have "state_of (handleEventStreamMessage env now results s)
      = s\<lparr>utteranceLastEvent := utteranceLastEvent s\<rparr>"
    by (simp add: handleEventStreamMessage_def)
  then show ?thesis by blast
next
  case False
  with assms have "state_of (handleEventStreamMessage env now results s)
      = s\<lparr>utteranceLastEvent := Some now\<rparr>"
    by (simp add: handleEventStreamMessage_def Let_def split: option.splits)
  then show ?thesis by blast
qed

lemma transcript_run_partials:
  "list_all (\<lambda>(now, results). results \<noteq> [] \<and> IsPartial (hd results)) partials \<Longrightarrow>
   \<exists>t. transcript_run env s partials = s\<lparr>utteranceLastEvent := t\<rparr>"
proof (induction partials arbitrary: s)
  case Nil
  have "transcript_run env s [] = s\<lparr>utteranceLastEvent := utteranceLastEvent s\<rparr>"
    by (simp add: transcript_run_def)
  then show ?case by blast
next
  case (Cons p partials)
  obtain now results where p: "p = (now, results)" by (cases p)
  with Cons.prems have "results \<noteq> []" "IsPartial (hd results)"
    and rest: "list_all (\<lambda>(now, results). results \<noteq> [] \<and> IsPartial (hd results)) partials"
    by simp_all
  from handle_partial [OF this(1,2), of env now s]
  obtain t1 where t1: "transcript_step env s p = s\<lparr>utteranceLastEvent := t1\<rparr>"
    using p by auto
  from Cons.IH [OF rest, of "s\<lparr>utteranceLastEvent := t1\<rparr>"]
  obtain t where "transcript_run env (s\<lparr>utteranceLastEvent := t1\<rparr>) partials
      = s\<lparr>utteranceLastEvent := t\<rparr>"
    by auto
  with t1 have "transcript_run env s (p # partials) = s\<lparr>utteranceLastEvent := t\<rparr>"
    by (simp add: transcript_run_def)
  then show ?case by blast
qed

lemma handle_final:
  assumes "results \<noteq> []" "Alternatives (hd results) \<noteq> []" "\<not> IsPartial (hd results)"
    and "decodeURIComponent env (hd (Alternatives (hd results))) = Some fragment"
  shows "handleEventStreamMessage env now results s =
     Returned (s\<lparr>utteranceLastEvent := Some now,
                 utterance := utterance s @ transcription s @ fragment @ [CHR 0x0A],
                 transcription := []\<rparr>)"
  using assms by (simp add: handleEventStreamMessage_def Let_def)

lemma transcript_run_snoc:
  "transcript_run env s (evs @ [(now, results)])
     = state_of (handleEventStreamMessage env now results (transcript_run env s evs))"
  by (simp add: transcript_run_def)

lemma handle_end_of_speech:
  assumes "\<not> isListening s"
    and "2 < length (js_split_nonword (js_trim (utterance s)))"
  shows "handleEventStreamMessage env now [] s =
     (case (if allowAudioInputOnly s
            then sendButton_click
                   (s\<lparr>utterance := redecode env (utterance s),
                      inputText_value := inputText_value s @ '' '' @ redecode env (utterance s),
                      sendButton_disabled := False\<rparr>)
            else Returned
                   (s\<lparr>utterance := redecode env (utterance s),
                      inputText_value := inputText_value s @ '' '' @ redecode env (utterance s),
                      sendButton_disabled := False\<rparr>)) of
        Thrown e s' \<Rightarrow> Thrown e s'
      | Returned s' \<Rightarrow> Returned (s'\<lparr>utterance := [], transcription := []\<rparr>))"
proof (cases "decodeURIComponent env (escape env (utterance s))")
  case None
  then have "s\<lparr>utterance := redecode env (utterance s)\<rparr> = s"
    by (simp add: redecode_def)
  with assms None show ?thesis
    by (simp add: handleEventStreamMessage_def Let_def redecode_def)
next
  case (Some decoded)
  with assms show ?thesis
    by (simp add: handleEventStreamMessage_def Let_def redecode_def)
qed

text \<open>
  Claim C4, as amended. A transcript event without results that arrives while the session
  is not listening, with a pending utterance of at most two tokens, changes nothing: no
  utterance is emitted, no field of the page is written, and both buffers keep their
  content.
\<close>

theorem handleEventStreamMessage_short_utterance:
  assumes "\<not> isListening s"
    and "length (js_split_nonword (js_trim (utterance s))) \<le> 2"
  shows "handleEventStreamMessage env now [] s = Returned s"
  using assms by (simp add: handleEventStreamMessage_def)


theorem handleEventStreamMessage_short_utterance_witness:
  "\<not> isListening (transcript_run ascii_builtins init_session
        [(1, [\<lparr>Alternatives = [''yes''], IsPartial = False\<rparr>])])
   \<and> length (js_split_nonword (js_trim (utterance (transcript_run ascii_builtins init_session
        [(1, [\<lparr>Alternatives = [''yes''], IsPartial = False\<rparr>])])))) \<le> 2
   \<and> handleEventStreamMessage ascii_builtins 2 []
       (transcript_run ascii_builtins init_session
         [(1, [\<lparr>Alternatives = [''yes''], IsPartial = False\<rparr>])])
     = Returned (transcript_run ascii_builtins init_session
         [(1, [\<lparr>Alternatives = [''yes''], IsPartial = False\<rparr>])])"
proof -
  let ?s = "transcript_run ascii_builtins init_session
        [(1, [\<lparr>Alternatives = [''yes''], IsPartial = False\<rparr>])]"
  have a: "\<not> isListening ?s" by code_simp
  have b: "length (js_split_nonword (js_trim (utterance ?s))) \<le> 2" by code_simp
  from handleEventStreamMessage_short_utterance [OF a b, of ascii_builtins 2] a b
  show ?thesis by simp
qed

theorem handleEventStreamMessage_short_utterance_kept:
  "utterance (state_of (handleEventStreamMessage ascii_builtins 2 []
       (transcript_run ascii_builtins init_session
         [(1, [\<lparr>Alternatives = [''yes''], IsPartial = False\<rparr>])])))
     = ''yes'' @ [CHR 0x0A]
   \<and> utterance (state_of (handleEventStreamMessage ascii_builtins 2 []
       (transcript_run ascii_builtins init_session
         [(1, [\<lparr>Alternatives = [''yes''], IsPartial = False\<rparr>])])))
     \<noteq> []"
  by code_simp

text \<open>
  Claim C3, as amended. After any partial results and a final result whose fragment
  decodes, the pending utterance is what it was before, followed by the decoded fragment
  and a line feed; the partial results leave no trace in it. When it has more than two
  tokens and a transcript event without results arrives while not listening, the text put
  into the input field is the previous content of the field, a space, and the pending
  utterance after re-decoding. In audio-only mode the send button is clicked, exactly one
  utterance with that text is sent or queued for the control channel, and the input field
  is emptied; otherwise the text stays in the input field with the send button enabled and
  nothing is sent. Both buffers are empty afterwards.
\<close>

theorem utterance_emitted_once:
  assumes "list_all (\<lambda>(now, results). results \<noteq> [] \<and> IsPartial (hd results)) partials"
    and "results \<noteq> []" and "Alternatives (hd results) \<noteq> []" and "\<not> IsPartial (hd results)"
    and "decodeURIComponent env (hd (Alternatives (hd results))) = Some fragment"
    and "s1 = transcript_run env s0 (partials @ [(now, results)])"
    and "2 < length (js_split_nonword (js_trim (utterance s1)))"
    and "s2 = state_of (handleEventStreamMessage env now' [] (s1\<lparr>isListening := False\<rparr>))"
    and "text = inputText_value s0 @ '' '' @ redecode env (utterance s1)"
  shows "utterance s1 = utterance s0 @ transcription s0 @ fragment @ [CHR 0x0A]
    \<and> utterance s2 = [] \<and> transcription s2 = []
    \<and> (allowAudioInputOnly s0 \<longrightarrow>
          utterances_of (sent_messages (new_effects s0 s2) @ websocketApplicationQueue s2) = [text]
          \<and> inputText_value s2 = [])
    \<and> (\<not> allowAudioInputOnly s0 \<longrightarrow>
          inputText_value s2 = text \<and> \<not> sendButton_disabled s2 \<and> new_effects s0 s2 = []
          \<and> websocketApplicationQueue s2 = websocketApplicationQueue s0)"
proof -
  from transcript_run_partials [OF assms(1), of env s0]
  obtain t where t: "transcript_run env s0 partials = s0\<lparr>utteranceLastEvent := t\<rparr>"
    by blast
  have s1: "s1 = s0\<lparr>utteranceLastEvent := Some now,
      utterance := utterance s0 @ transcription s0 @ fragment @ [CHR 0x0A],
      transcription := []\<rparr>"
    unfolding assms(6) transcript_run_snoc t
    by (simp add: handle_final [OF assms(2-5)])
  let ?l = "s1\<lparr>isListening := False\<rparr>"
  let ?b = "?l\<lparr>utterance := redecode env (utterance ?l),
      inputText_value := inputText_value ?l @ '' '' @ redecode env (utterance ?l),
      sendButton_disabled := False\<rparr>"
  have l: "\<not> isListening ?l" "2 < length (js_split_nonword (js_trim (utterance ?l)))"
    using assms(7) by simp_all
  note h = handle_end_of_speech [OF l, of env now']
  have b: "inputText_value ?b = text" "effects ?b = effects s0"
    "websocketApplicationQueue ?b = websocketApplicationQueue s0"
    "allowAudioInputOnly ?l = allowAudioInputOnly s0" "\<not> sendButton_disabled ?b"
    by (simp_all add: s1 assms(9))
  have u1: "utterance s1 = utterance s0 @ transcription s0 @ fragment @ [CHR 0x0A]"
    by (simp add: s1)
  show ?thesis
  proof (cases "allowAudioInputOnly s0")
    case False
    with h b have "handleEventStreamMessage env now' [] ?l
        = Returned (?b\<lparr>utterance := [], transcription := []\<rparr>)"
      by simp
    then have s2: "s2 = ?b\<lparr>utterance := [], transcription := []\<rparr>"
      by (simp add: assms(8))
    have "inputText_value s2 = text" "\<not> sendButton_disabled s2" "new_effects s0 s2 = []"
      "websocketApplicationQueue s2 = websocketApplicationQueue s0"
      "utterance s2 = []" "transcription s2 = []"
      unfolding s2 using b by (simp_all add: new_effects_def)
    with False u1 show ?thesis by simp
  next
    case True
    have ne: "inputText_value ?b \<noteq> []" by simp
    from sendButton_onclick_sends [OF ne]
    obtain s' where s': "sendButton_onclick ?b = Returned s'"
      "utterances_of (sent_messages (new_effects ?b s') @ websocketApplicationQueue s')
         = [inputText_value ?b]"
      "inputText_value s' = []"
      by blast
    have click: "sendButton_click ?b = Returned s'"
      using s'(1) by (simp add: sendButton_click_def)
    from h True b(4) click have "handleEventStreamMessage env now' [] ?l
        = Returned (s'\<lparr>utterance := [], transcription := []\<rparr>)"
      by simp
    then have s2: "s2 = s'\<lparr>utterance := [], transcription := []\<rparr>"
      by (simp add: assms(8))
    have ne': "new_effects s0 s2 = new_effects ?b s'"
      unfolding s2 new_effects_def b(2) by simp
    have "utterances_of (sent_messages (new_effects s0 s2) @ websocketApplicationQueue s2) = [text]"
      unfolding ne' using s'(2) b(1) by (simp add: s2)
    moreover have "inputText_value s2 = []" "utterance s2 = []" "transcription s2 = []"
      unfolding s2 using s'(3) by simp_all
    ultimately show ?thesis using True u1 by simp
  qed
qed

theorem utterance_emitted_once_witness:
  "list_all (\<lambda>(now, results). results \<noteq> [] \<and> IsPartial (hd results))
      [(1::nat, [\<lparr>Alternatives = [''tell''], IsPartial = True\<rparr>])]
   \<and> 2 < length (js_split_nonword (js_trim (utterance
        (transcript_run ascii_builtins init_session
          ([(1, [\<lparr>Alternatives = [''tell''], IsPartial = True\<rparr>])]
           @ [(2, [\<lparr>Alternatives = [''tell me more''], IsPartial = False\<rparr>])])))))
   \<and> utterances_of
        (sent_messages
          (new_effects init_session
            (state_of (handleEventStreamMessage ascii_builtins 3 []
              ((transcript_run ascii_builtins init_session
                 ([(1, [\<lparr>Alternatives = [''tell''], IsPartial = True\<rparr>])]
                  @ [(2, [\<lparr>Alternatives = [''tell me more''], IsPartial = False\<rparr>])]))
               \<lparr>isListening := False\<rparr>))))
         @ websocketApplicationQueue
            (state_of (handleEventStreamMessage ascii_builtins 3 []
              ((transcript_run ascii_builtins init_session
                 ([(1, [\<lparr>Alternatives = [''tell''], IsPartial = True\<rparr>])]
                  @ [(2, [\<lparr>Alternatives = [''tell me more''], IsPartial = False\<rparr>])]))
               \<lparr>isListening := False\<rparr>))))
      = ['' tell me more'' @ [CHR 0x0A]]"
proof -
  let ?partials = "[(1::nat, [\<lparr>Alternatives = [''tell''], IsPartial = True\<rparr>])]"
  let ?results = "[\<lparr>Alternatives = [''tell me more''], IsPartial = False\<rparr>]"
  let ?s1 = "transcript_run ascii_builtins init_session (?partials @ [(2, ?results)])"
  let ?s2 = "state_of (handleEventStreamMessage ascii_builtins 3 [] (?s1\<lparr>isListening := False\<rparr>))"
  have p: "list_all (\<lambda>(now, results). results \<noteq> [] \<and> IsPartial (hd results)) ?partials"
    by simp
  have r: "?results \<noteq> []" "Alternatives (hd ?results) \<noteq> []" "\<not> IsPartial (hd ?results)"
    by simp_all
  have d: "decodeURIComponent ascii_builtins (hd (Alternatives (hd ?results))) = Some ''tell me more''"
    by code_simp
  have k: "2 < length (js_split_nonword (js_trim (utterance ?s1)))"
    by code_simp
  have a: "allowAudioInputOnly init_session"
    by (simp add: init_session_def)
  have t: "inputText_value init_session @ '' '' @ redecode ascii_builtins (utterance ?s1)
      = '' tell me more'' @ [CHR 0x0A]"
    by code_simp
  from utterance_emitted_once [OF p r d refl k refl refl] a
  have "utterances_of (sent_messages (new_effects init_session ?s2) @ websocketApplicationQueue ?s2)
      = [inputText_value init_session @ '' '' @ redecode ascii_builtins (utterance ?s1)]"
    by blast
  then have u: "utterances_of (sent_messages (new_effects init_session ?s2) @ websocketApplicationQueue ?s2)
      = ['' tell me more'' @ [CHR 0x0A]]"
    by (simp only: t)
  show ?thesis by (rule conjI [OF p conjI [OF k u]])
qed

theorem utterance_emitted_with_separators:
  "websocketApplicationQueue
     (state_of (handleEventStreamMessage ascii_builtins 3 []
       ((transcript_run ascii_builtins init_session
          [(1, [\<lparr>Alternatives = [''tell''], IsPartial = True\<rparr>]),
           (2, [\<lparr>Alternatives = [''tell me more''], IsPartial = False\<rparr>])])
        \<lparr>isListening := False\<rparr>)))
     = [SendUtterance ('' tell me more'' @ [CHR 0x0A])]
   \<and> '' tell me more'' @ [CHR 0x0A] \<noteq> ''tell me more''"
  by code_simp

end
